theory Spec2Isabelle
  imports Main "HOL-Library.Sublist" "HOL-Library.Multiset"
begin

section \<open>PairRanker: the binary-insertion ranking engine and its reducer\<close>

text \<open>
  Shallow embedding of \<^verbatim>\<open>src/utils/rankingAlgorithm.ts\<close>, of the types it uses
  (\<^verbatim>\<open>src/types.ts\<close>) and of the ranking cases of \<^verbatim>\<open>appReducer\<close>
  (\<^verbatim>\<open>src/context/AppContext.tsx\<close>).

  Identifiers are JavaScript strings (\<open>string\<close>); \<open>low\<close> and \<open>high\<close> are JavaScript
  numbers that only ever hold integers here (\<open>high\<close> becomes \<open>-1\<close>; in a session that
  a run reaches they lie between 0 and the length of the ordered list, far below \<open>2^53\<close>,
  where the arithmetic of doubles is that of the integers), so they are \<open>int\<close>,
  and \<^verbatim>\<open>Math.floor((low + high) / 2)\<close> is \<open>(low + high) div 2\<close> (\<open>div\<close> on \<open>int\<close>
  rounds towards minus infinity). A function that returns \<^verbatim>\<open>T | null\<close> returns
  \<open>T option\<close>, an optional field is an \<open>option\<close>.
\<close>

subsection \<open>Data model (types.ts)\<close>

text \<open>The field \<^verbatim>\<open>id\<close> is written \<open>item_id\<close> / \<open>list_id\<close> (\<open>id\<close> is the identity function of HOL), \<^verbatim>\<open>text\<close> is \<open>item_text\<close> and \<^verbatim>\<open>lists\<close> is \<open>appLists\<close>.\<close>

record ListItem =
  item_id :: string
  item_text :: string

datatype ListStatus = unranked | ranking | ranked

datatype RankingMode = full | partial

record RankingState =
  sortedListItemIds :: "string list"
  pendingItemIds :: "string list"
  currentCandidateId :: string
  low :: int
  high :: int
  mode :: "RankingMode option"

text \<open>\<^verbatim>\<open>RankedListData\<close> has the single field \<^verbatim>\<open>itemIdsInOrder\<close>; \<open>rankedData\<close> holds it directly.\<close>

record AppList =
  list_id :: string
  name :: string
  items :: "ListItem list"
  status :: ListStatus
  rankedData :: "string list option"
  unrankedItems :: "ListItem list option"
  createdAt :: int

datatype Tab = current | myLists

text \<open>The view \<^verbatim>\<open>'ranking'\<close> is written \<open>rankingView\<close>: \<open>ranking\<close> is the list status.\<close>

datatype View = currentList | rankingView | rankedResult

record AppState =
  appLists :: "AppList list"
  currentListId :: "string option"
  rankingState :: "RankingState option"
  currentTab :: Tab
  currentView :: View

text \<open>The actions of the ranking life cycle; the list-editing actions are not embedded.\<close>

datatype Action =
  START_RANKING string
  | START_PARTIAL_RANKING string
  | MAKE_COMPARISON bool

subsection \<open>JavaScript array primitives\<close>

text \<open>
  \<^verbatim>\<open>arr.splice(start, 0, x)\<close> on a copy of the array: a negative \<open>start\<close> counts from the
  end and is clamped at 0, a \<open>start\<close> beyond the length is clamped to the length.
\<close>

definition splice_insert :: "int \<Rightarrow> 'a \<Rightarrow> 'a list \<Rightarrow> 'a list" where
  "splice_insert start x xs =
     (let len = int (length xs);
          actualStart = (if start < 0 then max (len + start) 0 else min start len)
      in take (nat actualStart) xs @ [x] @ drop (nat actualStart) xs)"

text \<open>\<^verbatim>\<open>arr[i]\<close> for an integer \<open>i\<close>: \<^verbatim>\<open>undefined\<close> (here \<open>None\<close>) outside \<open>0 .. length - 1\<close>.\<close>

definition js_index :: "'a list \<Rightarrow> int \<Rightarrow> 'a option" where
  "js_index xs i = (if 0 \<le> i \<and> i < int (length xs) then Some (xs ! nat i) else None)"

subsection \<open>rankingAlgorithm.ts\<close>

text \<open>
  \<^verbatim>\<open>itemIds.slice(1)\<close> is \<open>drop 1 itemIds\<close>. The reads \<^verbatim>\<open>itemIds[0]\<close>, \<^verbatim>\<open>itemIds[1]\<close> are
  in range under the length test before them.
\<close>

definition initializeRankingState :: "ListItem list \<Rightarrow> RankingState option" where
  "initializeRankingState its =
     (if length its < 2 then None
      else
        (let itemIds = map item_id its
         in Some \<lparr> sortedListItemIds = [itemIds ! 0],
                   pendingItemIds = drop 1 itemIds,
                   currentCandidateId = itemIds ! 1,
                   low = 0,
                   high = 0,
                   mode = Some full \<rparr>))"

definition initializePartialRankingState ::
    "string list \<Rightarrow> ListItem list \<Rightarrow> RankingState option" where
  "initializePartialRankingState existingRankedIds newItems =
     (if length newItems = 0 then None
      else if length existingRankedIds = 0 then initializeRankingState newItems
      else
        (let newItemIds = map item_id newItems
         in Some \<lparr> sortedListItemIds = existingRankedIds,
                   pendingItemIds = drop 1 newItemIds,
                   currentCandidateId = newItemIds ! 0,
                   low = 0,
                   high = int (length existingRankedIds) - 1,
                   mode = Some partial \<rparr>))"

text \<open>
  \<^verbatim>\<open>processComparison\<close>. In the branch that returns the next candidate,
  \<^verbatim>\<open>pendingItemIds[0]\<close> is in range: \<open>newPendingItems\<close> is not empty there.
\<close>

definition processComparison :: "RankingState \<Rightarrow> bool \<Rightarrow> RankingState option" where
  "processComparison state chooseCandidate =
     (let mid = (low state + high state) div 2;
          newLow = (if chooseCandidate then low state else mid + 1);
          newHigh = (if chooseCandidate then mid - 1 else high state)
      in
        if newLow > newHigh then
          (let newSortedList =
                 splice_insert newLow (currentCandidateId state) (sortedListItemIds state);
               newPendingItems = drop 1 (pendingItemIds state)
           in
             if length newPendingItems = 0 then None
             else Some \<lparr> sortedListItemIds = newSortedList,
                         pendingItemIds = newPendingItems,
                         currentCandidateId = pendingItemIds state ! 0,
                         low = 0,
                         high = int (length newSortedList) - 1,
                         mode = mode state \<rparr>)
        else Some \<lparr> sortedListItemIds = sortedListItemIds state,
                    pendingItemIds = pendingItemIds state,
                    currentCandidateId = currentCandidateId state,
                    low = newLow,
                    high = newHigh,
                    mode = mode state \<rparr>)"

record Comparison =
  candidateId :: string
  referenceId :: "string option"

definition getCurrentComparison :: "RankingState \<Rightarrow> Comparison" where
  "getCurrentComparison state =
     (let mid = (low state + high state) div 2
      in \<lparr> candidateId = currentCandidateId state,
           referenceId = js_index (sortedListItemIds state) mid \<rparr>)"

subsection \<open>appReducer (AppContext.tsx): the ranking cases\<close>

text \<open>\<^verbatim>\<open>list.unrankedItems || []\<close>\<close>

definition orEmpty :: "'a list option \<Rightarrow> 'a list" where
  "orEmpty v = (case v of None \<Rightarrow> [] | Some xs \<Rightarrow> xs)"

fun appReducer :: "AppState \<Rightarrow> Action \<Rightarrow> AppState" where
  "appReducer state (START_RANKING listId) =
     (case find (\<lambda>l. list_id l = listId) (appLists state) of
        None \<Rightarrow> state
      | Some lst \<Rightarrow>
          (let allItems = items lst @ orEmpty (unrankedItems lst)
           in if length allItems < 2 then state
              else
                (case initializeRankingState allItems of
                   None \<Rightarrow> state
                 | Some rs \<Rightarrow>
                     state \<lparr> appLists :=
                               map (\<lambda>l. if list_id l = listId
                                         then l \<lparr> items := allItems,
                                                 status := ranking,
                                                 unrankedItems := None,
                                                 rankedData := None \<rparr>
                                         else l) (appLists state),
                             rankingState := Some rs,
                             currentView := rankingView \<rparr>)))"
| "appReducer state (START_PARTIAL_RANKING listId) =
     (case find (\<lambda>l. list_id l = listId) (appLists state) of
        None \<Rightarrow> state
      | Some lst \<Rightarrow>
          (case rankedData lst of
             None \<Rightarrow> state
           | Some itemIdsInOrder \<Rightarrow>
               (case unrankedItems lst of
                  None \<Rightarrow> state
                | Some unrankedIts \<Rightarrow>
                    if length unrankedIts = 0 then state
                    else
                      (case initializePartialRankingState itemIdsInOrder unrankedIts of
                         None \<Rightarrow> state
                       | Some rs \<Rightarrow>
                           state \<lparr> appLists :=
                                     map (\<lambda>l. if list_id l = listId
                                               then l \<lparr> status := ranking,
                                                       items := items l @ orEmpty (unrankedItems l) \<rparr>
                                               else l) (appLists state),
                                   rankingState := Some rs,
                                   currentView := rankingView \<rparr>))))"
| "appReducer state (MAKE_COMPARISON chooseCandidate) =
     (case rankingState state of
        None \<Rightarrow> state
      | Some rs \<Rightarrow>
          (case processComparison rs chooseCandidate of
             None \<Rightarrow>
               (let finalOrder = sortedListItemIds rs
                in state \<lparr> appLists :=
                             map (\<lambda>l. if Some (list_id l) = currentListId state
                                       then l \<lparr> status := ranked,
                                               rankedData := Some finalOrder,
                                               unrankedItems := None \<rparr>
                                       else l) (appLists state),
                           rankingState := None,
                           currentView := rankedResult \<rparr>)
           | Some newRankingState \<Rightarrow> state \<lparr> rankingState := Some newRankingState \<rparr>))"

subsection \<open>Driving a session\<close>

text \<open>
  The caller threads the session through \<^verbatim>\<open>processComparison\<close>, one answer at a time,
  for as long as it returns a session; \<open>None\<close> is the completion signal.
\<close>

fun applyComparisons :: "RankingState \<Rightarrow> bool list \<Rightarrow> RankingState option" where
  "applyComparisons s [] = Some s"
| "applyComparisons s (c # cs) =
     (case processComparison s c of
        None \<Rightarrow> None
      | Some s' \<Rightarrow> applyComparisons s' cs)"

text \<open>The sessions a run goes through, the first one included, up to the completion signal.\<close>

fun sessionTrace :: "RankingState \<Rightarrow> bool list \<Rightarrow> RankingState list" where
  "sessionTrace s [] = [s]"
| "sessionTrace s (c # cs) =
     (case processComparison s c of
        None \<Rightarrow> [s]
      | Some s' \<Rightarrow> s # sessionTrace s' cs)"

definition replayFullRanking :: "ListItem list \<Rightarrow> bool list \<Rightarrow> RankingState list" where
  "replayFullRanking its answers =
     (case initializeRankingState its of
        None \<Rightarrow> []
      | Some s \<Rightarrow> sessionTrace s answers)"

text \<open>The identifiers a session holds: ordered, then pending, then the candidate.\<close>

definition sessionIds :: "RankingState \<Rightarrow> string list" where
  "sessionIds s = sortedListItemIds s @ pendingItemIds s @ [currentCandidateId s]"

text \<open>A full ranking from its item list: \<open>None\<close> when no session starts or the run has completed.\<close>

definition runFullRanking :: "ListItem list \<Rightarrow> bool list \<Rightarrow> RankingState option" where
  "runFullRanking its answers =
     (case initializeRankingState its of
        None \<Rightarrow> None
      | Some s \<Rightarrow> applyComparisons s answers)"

section \<open>Properties\<close>

subsection \<open>Facts about the array primitives\<close>

lemma length_splice_insert: "length (splice_insert k x xs) = Suc (length xs)"
  by (simp add: splice_insert_def Let_def)

lemma subseq_splice_insert: "subseq xs (splice_insert k x xs)"
proof -
  have "subseq (take n xs @ drop n xs) (take n xs @ [x] @ drop n xs)" for n
    by (rule list_emb_append_mono) auto
  then show ?thesis
    by (simp add: splice_insert_def Let_def)
qed

lemma mset_splice_insert: "mset (splice_insert k x xs) = add_mset x (mset xs)"
proof -
  have "mset (take n xs @ [x] @ drop n xs) = add_mset x (mset (take n xs @ drop n xs))" for n
    by (simp del: append_take_drop_id)
  then show ?thesis
    by (simp add: splice_insert_def Let_def)
qed

lemma mset_drop_1: "xs \<noteq> [] \<Longrightarrow> add_mset (xs ! 0) (mset (drop 1 xs)) = mset xs"
  by (cases xs) simp_all

subsection \<open>The three outcomes of processComparison\<close>

lemma processComparison_narrow:
  assumes "mid = (low s + high s) div 2"
    and "newLow = (if c then low s else mid + 1)"
    and "newHigh = (if c then mid - 1 else high s)"
    and "newLow \<le> newHigh"
  shows "processComparison s c = Some (s \<lparr> low := newLow, high := newHigh \<rparr>)"
  using assms by (cases c) (simp_all add: processComparison_def Let_def)

lemma processComparison_insert_done:
  assumes "mid = (low s + high s) div 2"
    and "newLow = (if c then low s else mid + 1)"
    and "newHigh = (if c then mid - 1 else high s)"
    and "newHigh < newLow"
    and "length (pendingItemIds s) \<le> 1"
  shows "processComparison s c = None"
  using assms by (cases c) (simp_all add: processComparison_def Let_def)

lemma processComparison_insert_next:
  assumes "mid = (low s + high s) div 2"
    and "newLow = (if c then low s else mid + 1)"
    and "newHigh = (if c then mid - 1 else high s)"
    and "newHigh < newLow"
    and "1 < length (pendingItemIds s)"
  shows "processComparison s c =
     Some \<lparr> sortedListItemIds =
              splice_insert newLow (currentCandidateId s) (sortedListItemIds s),
            pendingItemIds = drop 1 (pendingItemIds s),
            currentCandidateId = pendingItemIds s ! 0,
            low = 0,
            high = int (length (sortedListItemIds s)),
            mode = mode s \<rparr>"
  using assms by (cases c) (simp_all add: processComparison_def Let_def length_splice_insert)

lemma processComparison_Some_cases:
  assumes "processComparison s c = Some s'"
  obtains (narrow) newLow newHigh where
      "newLow = (if c then low s else (low s + high s) div 2 + 1)"
      "newHigh = (if c then (low s + high s) div 2 - 1 else high s)"
      "newLow \<le> newHigh" "s' = s \<lparr> low := newLow, high := newHigh \<rparr>"
    | (insert) newLow where
      "newLow = (if c then low s else (low s + high s) div 2 + 1)"
      "1 < length (pendingItemIds s)"
      "s' = \<lparr> sortedListItemIds =
                splice_insert newLow (currentCandidateId s) (sortedListItemIds s),
              pendingItemIds = drop 1 (pendingItemIds s),
              currentCandidateId = pendingItemIds s ! 0,
              low = 0,
              high = int (length (sortedListItemIds s)),
              mode = mode s \<rparr>"
proof -
  define mid where "mid = (low s + high s) div 2"
  define newLow where "newLow = (if c then low s else mid + 1)"
  define newHigh where "newHigh = (if c then mid - 1 else high s)"
  show thesis
  proof (cases "newLow \<le> newHigh")
    case True
    from processComparison_narrow [OF mid_def newLow_def newHigh_def True] assms
    have "s' = s \<lparr> low := newLow, high := newHigh \<rparr>" by simp
    with True show thesis
      using narrow [of newLow newHigh] by (simp add: newLow_def newHigh_def mid_def)
  next
    case False
    then have lt: "newHigh < newLow" by simp
    show thesis
    proof (cases "1 < length (pendingItemIds s)")
      case True
      from processComparison_insert_next [OF mid_def newLow_def newHigh_def lt True] assms
      show thesis using insert [of newLow] True by (simp add: newLow_def mid_def)
    next
      case False
      then have "length (pendingItemIds s) \<le> 1" by simp
      from processComparison_insert_done [OF mid_def newLow_def newHigh_def lt this] assms
      show thesis by simp
    qed
  qed
qed

lemma processComparison_subseq:
  "processComparison s c = Some s' \<Longrightarrow> subseq (sortedListItemIds s) (sortedListItemIds s')"
  by (erule processComparison_Some_cases) (simp_all add: subseq_splice_insert)

lemma processComparison_mset:
  assumes "processComparison s c = Some s'"
  shows "mset (sessionIds s') = mset (sessionIds s)"
  using assms
proof (cases rule: processComparison_Some_cases)
  case (narrow newLow newHigh)
  then show ?thesis by (simp add: sessionIds_def)
next
  case (insert newLow)
  then have "pendingItemIds s \<noteq> []" by auto
  from mset_drop_1 [OF this] insert show ?thesis
    by (simp add: sessionIds_def mset_splice_insert)
qed

lemma processComparison_bounds:
  assumes "processComparison s c = Some s'"
    and "0 \<le> low s" and "high s \<le> int (length (sortedListItemIds s)) - 1"
  shows "0 \<le> low s' \<and> low s' \<le> high s' \<and> high s' \<le> int (length (sortedListItemIds s')) - 1"
  using assms(1)
proof (cases rule: processComparison_Some_cases)
  case (narrow newLow newHigh)
  with assms(2,3) show ?thesis by (auto split: if_splits)
next
  case (insert newLow)
  then show ?thesis by (simp add: length_splice_insert)
qed

subsection \<open>Initial sessions and runs\<close>

lemma initializeRankingState_Some:
  assumes "initializeRankingState its = Some s"
  shows "2 \<le> length its"
    and "s = \<lparr> sortedListItemIds = [map item_id its ! 0],
               pendingItemIds = drop 1 (map item_id its),
               currentCandidateId = map item_id its ! 1,
               low = 0, high = 0, mode = Some full \<rparr>"
  using assms by (simp_all add: initializeRankingState_def Let_def split: if_splits)

lemma initializePartialRankingState_Some:
  assumes "initializePartialRankingState existingRankedIds newItems = Some s"
    and "existingRankedIds \<noteq> []"
  shows "newItems \<noteq> []"
    and "s = \<lparr> sortedListItemIds = existingRankedIds,
               pendingItemIds = drop 1 (map item_id newItems),
               currentCandidateId = map item_id newItems ! 0,
               low = 0, high = int (length existingRankedIds) - 1, mode = Some partial \<rparr>"
  using assms by (simp_all add: initializePartialRankingState_def Let_def split: if_splits)

lemma applyComparisons_subseq:
  "applyComparisons s answers = Some s' \<Longrightarrow>
   subseq (sortedListItemIds s) (sortedListItemIds s')"
proof (induction answers arbitrary: s)
  case Nil
  then show ?case by simp
next
  case (Cons c cs)
  then obtain s1 where s1: "processComparison s c = Some s1"
    and rest: "applyComparisons s1 cs = Some s'"
    by (auto split: option.splits)
  from processComparison_subseq [OF s1] Cons.IH [OF rest]
  show ?case by (rule subseq_order.order_trans)
qed

lemma applyComparisons_mset:
  "applyComparisons s answers = Some s' \<Longrightarrow> mset (sessionIds s') = mset (sessionIds s)"
proof (induction answers arbitrary: s)
  case Nil
  then show ?case by simp
next
  case (Cons c cs)
  then obtain s1 where s1: "processComparison s c = Some s1"
    and rest: "applyComparisons s1 cs = Some s'"
    by (auto split: option.splits)
  from processComparison_mset [OF s1] Cons.IH [OF rest]
  show ?case by simp
qed

lemma applyComparisons_bounds:
  "applyComparisons s answers = Some s' \<Longrightarrow>
   0 \<le> low s \<Longrightarrow> low s \<le> high s \<Longrightarrow> high s \<le> int (length (sortedListItemIds s)) - 1 \<Longrightarrow>
   0 \<le> low s' \<and> low s' \<le> high s' \<and> high s' \<le> int (length (sortedListItemIds s')) - 1"
proof (induction answers arbitrary: s)
  case Nil
  then show ?case by simp
next
  case (Cons c cs)
  from Cons.prems(1) obtain s1 where s1: "processComparison s c = Some s1"
    and rest: "applyComparisons s1 cs = Some s'"
    by (auto split: option.splits)
  from processComparison_bounds [OF s1 Cons.prems(2) Cons.prems(4)]
  have "0 \<le> low s1" "low s1 \<le> high s1" "high s1 \<le> int (length (sortedListItemIds s1)) - 1"
    by simp_all
  with Cons.IH [OF rest] show ?case by simp
qed

lemma initial_bounds:
  assumes "initializeRankingState its = Some s
           \<or> initializePartialRankingState existingRankedIds newItems = Some s"
  shows "0 \<le> low s \<and> low s \<le> high s \<and> high s \<le> int (length (sortedListItemIds s)) - 1"
proof -
  have full: "0 \<le> low t \<and> low t \<le> high t \<and> high t \<le> int (length (sortedListItemIds t)) - 1"
    if "initializeRankingState xs = Some t" for xs t
    using initializeRankingState_Some(2) [OF that] by simp
  show ?thesis
  proof (cases "initializeRankingState its = Some s")
    case True
    then show ?thesis by (rule full)
  next
    case False
    with assms have p: "initializePartialRankingState existingRankedIds newItems = Some s"
      by simp
    show ?thesis
    proof (cases "existingRankedIds = []")
      case True
      with p have "initializeRankingState newItems = Some s"
        by (simp add: initializePartialRankingState_def split: if_splits)
      then show ?thesis by (rule full)
    next
      case False
      from initializePartialRankingState_Some(2) [OF p False] False
      show ?thesis by (cases existingRankedIds) simp_all
    qed
  qed
qed

lemma mset_drop_1_nth_1:
  "2 \<le> length xs \<Longrightarrow> mset ([xs ! 0] @ drop 1 xs @ [xs ! 1]) = add_mset (xs ! 1) (mset xs)"
  by (cases xs) simp_all

text \<open>
  Every step that returns a session keeps the identifiers it holds; what a session holds is
  therefore fixed by its initializer. A partial ranking starts with each identifier once, a
  full ranking starts (and stays) with one more copy of the second item.
\<close>

lemma full_session_ids:
  assumes "runFullRanking its answers = Some s"
  shows "mset (sessionIds s) = add_mset (item_id (its ! 1)) (mset (map item_id its))"
proof -
  from assms obtain s0 where s0: "initializeRankingState its = Some s0"
    and run: "applyComparisons s0 answers = Some s"
    by (auto simp: runFullRanking_def split: option.splits)
  note init = initializeRankingState_Some [OF s0]
  from init(1) have "map item_id its ! 1 = item_id (its ! 1)" by simp
  with init mset_drop_1_nth_1 [of "map item_id its"]
  have "mset (sessionIds s0) = add_mset (item_id (its ! 1)) (mset (map item_id its))"
    by (simp add: sessionIds_def)
  with applyComparisons_mset [OF run] show ?thesis by simp
qed

lemma partial_session_ids:
  assumes "existingOrder \<noteq> []"
    and "initializePartialRankingState existingOrder newItems = Some s0"
    and "applyComparisons s0 answers = Some s"
  shows "mset (sessionIds s) = mset existingOrder + mset (map item_id newItems)"
proof -
  note init = initializePartialRankingState_Some [OF assms(2) assms(1)]
  from init(1) have "map item_id newItems \<noteq> []" by simp
  from mset_drop_1 [OF this] init(2)
  have "mset (sessionIds s0) = mset existingOrder + mset (map item_id newItems)"
    by (simp add: sessionIds_def)
  with applyComparisons_mset [OF assms(3)] show ?thesis by simp
qed

lemma initializeRankingState_ids:
  assumes "map item_id its = map item_id its'"
  shows "initializeRankingState its = initializeRankingState its'"
proof -
  from assms have "length its = length its'" by (rule map_eq_imp_length_eq)
  with assms show ?thesis by (simp add: initializeRankingState_def)
qed

text \<open>
  Within the placement of one candidate the window only narrows: a call either returns the
  same session with a strictly smaller window inside the old one, or finds the narrowed
  window empty; it then signals completion when at most one identifier is pending, and
  otherwise returns the session with the candidate inserted at the narrowed \<open>low\<close>, the front
  of pending as candidate, and the window reset to the whole of the grown list.
\<close>

lemma processComparison_shrinks_or_places:
  "(let mid = (low s + high s) div 2;
        newLow = (if c then low s else mid + 1);
        newHigh = (if c then mid - 1 else high s)
    in (newLow \<le> newHigh
          \<and> processComparison s c = Some (s \<lparr> low := newLow, high := newHigh \<rparr>)
          \<and> low s \<le> newLow \<and> newHigh \<le> high s
          \<and> newHigh - newLow < high s - low s)
     \<or> (newHigh < newLow
          \<and> processComparison s c =
              (if length (pendingItemIds s) \<le> 1 then None
               else Some \<lparr> sortedListItemIds =
                             splice_insert newLow (currentCandidateId s) (sortedListItemIds s),
                           pendingItemIds = drop 1 (pendingItemIds s),
                           currentCandidateId = pendingItemIds s ! 0,
                           low = 0,
                           high = int (length (sortedListItemIds s)),
                           mode = mode s \<rparr>)))"
proof -
  define mid where "mid = (low s + high s) div 2"
  define newLow where "newLow = (if c then low s else mid + 1)"
  define newHigh where "newHigh = (if c then mid - 1 else high s)"
  have "(newLow \<le> newHigh
          \<and> processComparison s c = Some (s \<lparr> low := newLow, high := newHigh \<rparr>)
          \<and> low s \<le> newLow \<and> newHigh \<le> high s
          \<and> newHigh - newLow < high s - low s)
     \<or> (newHigh < newLow
          \<and> processComparison s c =
              (if length (pendingItemIds s) \<le> 1 then None
               else Some \<lparr> sortedListItemIds =
                             splice_insert newLow (currentCandidateId s) (sortedListItemIds s),
                           pendingItemIds = drop 1 (pendingItemIds s),
                           currentCandidateId = pendingItemIds s ! 0,
                           low = 0,
                           high = int (length (sortedListItemIds s)),
                           mode = mode s \<rparr>))"
  proof (cases "newLow \<le> newHigh")
    case True
    have step: "processComparison s c = Some (s \<lparr> low := newLow, high := newHigh \<rparr>)"
      by (rule processComparison_narrow [OF mid_def newLow_def newHigh_def True])
    have "low s \<le> newLow \<and> newHigh \<le> high s \<and> newHigh - newLow < high s - low s"
      using True unfolding newLow_def newHigh_def mid_def by (cases c) auto
    with True step show ?thesis by simp
  next
    case False
    then have lt: "newHigh < newLow" by simp
    show ?thesis
    proof (cases "1 < length (pendingItemIds s)")
      case True
      from processComparison_insert_next [OF mid_def newLow_def newHigh_def lt True] lt True
      show ?thesis by simp
    next
      case False
      then have le: "length (pendingItemIds s) \<le> 1" by simp
      from processComparison_insert_done [OF mid_def newLow_def newHigh_def lt le] lt le
      show ?thesis by simp
    qed
  qed
  then show ?thesis
    by (simp only: Let_def mid_def newLow_def newHigh_def)
qed

section \<open>The stated properties, checked against the code\<close>

subsection \<open>C1: conservation of the item identifiers\<close>

text \<open>
  C1 states that at every reachable session the identifiers of ordered, pending and the
  candidate together are exactly the identifiers supplied at initialization, that
  \<open>|ordered| + |pending| + 1\<close> is the item count, and that the candidate is in neither ordered
  nor pending. The code does not do that in a full ranking: \<^verbatim>\<open>initializeRankingState\<close>
  takes \<^verbatim>\<open>itemIds.slice(1)\<close> as pending, which starts with the candidate itself. For the
  items \<open>a, b, c\<close> the initial session holds \<open>a, b, c, b\<close> (four identifiers for three items, the
  candidate \<open>b\<close> also in pending), and after the answer "candidate preferred" the candidate is
  again \<open>b\<close>, which is now in ordered.
\<close>

theorem full_ranking_holds_candidate_twice:
  "map_option sessionIds
     (runFullRanking
        [\<lparr> item_id = ''a'', item_text = ''Item A'' \<rparr>,
         \<lparr> item_id = ''b'', item_text = ''Item B'' \<rparr>,
         \<lparr> item_id = ''c'', item_text = ''Item C'' \<rparr>] [])
     = Some [''a'', ''b'', ''c'', ''b'']
   \<and> runFullRanking
        [\<lparr> item_id = ''a'', item_text = ''Item A'' \<rparr>,
         \<lparr> item_id = ''b'', item_text = ''Item B'' \<rparr>,
         \<lparr> item_id = ''c'', item_text = ''Item C'' \<rparr>] [True]
     = Some \<lparr> sortedListItemIds = [''b'', ''a''],
              pendingItemIds = [''c''],
              currentCandidateId = ''b'',
              low = 0, high = 1, mode = Some full \<rparr>"
  by (simp add: runFullRanking_def initializeRankingState_def processComparison_def
      splice_insert_def sessionIds_def)

subsection \<open>C2: the outcome of a completed session\<close>

text \<open>
  C2 states that the completion signal carries the updated ordered sequence, holding every
  item of the initialization exactly once. In the code the completion signal is
  \<^verbatim>\<open>null\<close>: the list with the last candidate inserted is built and dropped, and the
  reducer records the ordered sequence of the session before the last comparison. For the
  items \<open>a, b, c\<close> and the answers "candidate", "reference", "candidate" the run completes and
  the list is recorded as ranked with the order \<open>b, a\<close>: \<open>c\<close> was never compared and is lost.
\<close>

theorem completion_records_order_without_last_items:
  "runFullRanking
     [\<lparr> item_id = ''a'', item_text = ''Item A'' \<rparr>,
      \<lparr> item_id = ''b'', item_text = ''Item B'' \<rparr>,
      \<lparr> item_id = ''c'', item_text = ''Item C'' \<rparr>] [True, False, True] = None
   \<and> foldl appReducer
        \<lparr> appLists =
            [\<lparr> list_id = ''list-1'', name = ''Test List'',
               items = [\<lparr> item_id = ''a'', item_text = ''Item A'' \<rparr>,
                        \<lparr> item_id = ''b'', item_text = ''Item B'' \<rparr>,
                        \<lparr> item_id = ''c'', item_text = ''Item C'' \<rparr>],
               status = unranked, rankedData = None, unrankedItems = None,
               createdAt = 0 \<rparr>],
          currentListId = Some ''list-1'', rankingState = None,
          currentTab = current, currentView = currentList \<rparr>
        [START_RANKING ''list-1'', MAKE_COMPARISON True, MAKE_COMPARISON False,
         MAKE_COMPARISON True]
     = \<lparr> appLists =
            [\<lparr> list_id = ''list-1'', name = ''Test List'',
               items = [\<lparr> item_id = ''a'', item_text = ''Item A'' \<rparr>,
                        \<lparr> item_id = ''b'', item_text = ''Item B'' \<rparr>,
                        \<lparr> item_id = ''c'', item_text = ''Item C'' \<rparr>],
               status = ranked, rankedData = Some [''b'', ''a''], unrankedItems = None,
               createdAt = 0 \<rparr>],
          currentListId = Some ''list-1'', rankingState = None,
          currentTab = current, currentView = rankedResult \<rparr>"
  by (simp add: runFullRanking_def initializeRankingState_def processComparison_def
      splice_insert_def orEmpty_def)

subsection \<open>C3: the shape of a full initialization\<close>

text \<open>
  C3 states that a full initialization has \<open>pending = items[2:]\<close>, so that the items
  \<open>a, b, c\<close> give \<open>pending = [c]\<close>. The code takes \<^verbatim>\<open>itemIds.slice(1)\<close>: for \<open>a, b, c\<close> it
  returns \<open>pending = [b, c]\<close>; ordered, candidate, bounds and mode are as stated.
\<close>

theorem full_initialization_keeps_candidate_in_pending:
  "initializeRankingState
     [\<lparr> item_id = ''a'', item_text = ''Item A'' \<rparr>,
      \<lparr> item_id = ''b'', item_text = ''Item B'' \<rparr>,
      \<lparr> item_id = ''c'', item_text = ''Item C'' \<rparr>]
   = Some \<lparr> sortedListItemIds = [''a''],
            pendingItemIds = [''b'', ''c''],
            currentCandidateId = ''b'',
            low = 0, high = 0, mode = Some full \<rparr>"
  by (simp add: initializeRankingState_def)

subsection \<open>C4: insertion, completion check and dequeue\<close>

text \<open>
  C4 states that after an insertion the session is complete exactly when pending is empty,
  and that otherwise the front of pending becomes the candidate of a still-active session.
  The code tests \<^verbatim>\<open>pendingItemIds.slice(1)\<close> for emptiness, so it also signals completion
  when pending holds one identifier: with ordered \<open>[a]\<close>, pending \<open>[c]\<close> and candidate \<open>b\<close>, the
  answer "candidate preferred" returns \<^verbatim>\<open>null\<close> and \<open>c\<close> is never dequeued.
\<close>

theorem last_pending_item_is_dropped:
  "processComparison
     \<lparr> sortedListItemIds = [''a''],
       pendingItemIds = [''c''],
       currentCandidateId = ''b'',
       low = 0, high = 0, mode = Some full \<rparr> True
   = None"
  by (simp add: processComparison_def)

subsection \<open>C5: the window narrowing step\<close>

text \<open>
  C5: with \<open>mid = floor((low + high) / 2)\<close>, the answer "candidate preferred" sets
  \<open>high = mid - 1\<close> and the answer "reference preferred" sets \<open>low = mid + 1\<close>; when the
  narrowed window is not empty, the session returned is the given one with that one bound
  changed: same candidate, same ordered and pending, the other bound and the mode unchanged.
  This holds for every session, in particular for those with \<open>low \<le> high\<close>.
\<close>

theorem window_narrowing_step:
  "(let mid = (low s + high s) div 2
    in (low s \<le> mid - 1 \<longrightarrow>
          processComparison s True = Some (s \<lparr> high := mid - 1 \<rparr>))
     \<and> (mid + 1 \<le> high s \<longrightarrow>
          processComparison s False = Some (s \<lparr> low := mid + 1 \<rparr>)))"
  by (simp add: processComparison_def Let_def)

theorem window_narrowing_step_witness:
  "processComparison
     \<lparr> sortedListItemIds = [''a'', ''b'', ''c'', ''d''], pendingItemIds = [],
       currentCandidateId = ''x'', low = 0, high = 3, mode = Some full \<rparr> True
   = Some \<lparr> sortedListItemIds = [''a'', ''b'', ''c'', ''d''], pendingItemIds = [],
            currentCandidateId = ''x'', low = 0, high = 0, mode = Some full \<rparr>
   \<and> processComparison
     \<lparr> sortedListItemIds = [''a'', ''b'', ''c'', ''d''], pendingItemIds = [],
       currentCandidateId = ''x'', low = 0, high = 3, mode = Some full \<rparr> False
   = Some \<lparr> sortedListItemIds = [''a'', ''b'', ''c'', ''d''], pendingItemIds = [],
            currentCandidateId = ''x'', low = 2, high = 3, mode = Some full \<rparr>"
  using window_narrowing_step
    [of "\<lparr> sortedListItemIds = [''a'', ''b'', ''c'', ''d''], pendingItemIds = [],
          currentCandidateId = ''x'', low = 0, high = 3, mode = Some full \<rparr>"]
  by (simp add: Let_def)

subsection \<open>C6: a partial ranking keeps the existing order\<close>

text \<open>
  C6: in a session started by \<^verbatim>\<open>initializePartialRankingState\<close> on a non-empty existing
  order, after any sequence of answers that leaves the session active, the existing order is
  a subsequence of ordered: its elements are all there, in their original relative order, and
  ordered only grew by insertions between them.
\<close>

theorem partial_ranking_preserves_existing_order:
  assumes "existingOrder \<noteq> []"
    and "initializePartialRankingState existingOrder newItems = Some s0"
    and "applyComparisons s0 answers = Some s"
  shows "subseq existingOrder (sortedListItemIds s)"
proof -
  from initializePartialRankingState_Some(2) [OF assms(2) assms(1)]
  have "sortedListItemIds s0 = existingOrder" by simp
  with applyComparisons_subseq [OF assms(3)] show ?thesis by simp
qed

theorem partial_ranking_preserves_existing_order_witness:
  "[''a'', ''b''] \<noteq> []
   \<and> initializePartialRankingState [''a'', ''b'']
        [\<lparr> item_id = ''c'', item_text = ''C'' \<rparr>,
         \<lparr> item_id = ''d'', item_text = ''D'' \<rparr>,
         \<lparr> item_id = ''e'', item_text = ''E'' \<rparr>]
       = Some \<lparr> sortedListItemIds = [''a'', ''b''], pendingItemIds = [''d'', ''e''],
                currentCandidateId = ''c'', low = 0, high = 1, mode = Some partial \<rparr>
   \<and> applyComparisons
        \<lparr> sortedListItemIds = [''a'', ''b''], pendingItemIds = [''d'', ''e''],
          currentCandidateId = ''c'', low = 0, high = 1, mode = Some partial \<rparr>
        [False, True]
       = Some \<lparr> sortedListItemIds = [''a'', ''c'', ''b''], pendingItemIds = [''e''],
                currentCandidateId = ''d'', low = 0, high = 2, mode = Some partial \<rparr>
   \<and> subseq [''a'', ''b''] [''a'', ''c'', ''b'']"
proof -
  have h1: "[''a'', ''b''] \<noteq> ([] :: string list)" by simp
  have h2: "initializePartialRankingState [''a'', ''b'']
        [\<lparr> item_id = ''c'', item_text = ''C'' \<rparr>,
         \<lparr> item_id = ''d'', item_text = ''D'' \<rparr>,
         \<lparr> item_id = ''e'', item_text = ''E'' \<rparr>]
       = Some \<lparr> sortedListItemIds = [''a'', ''b''], pendingItemIds = [''d'', ''e''],
                currentCandidateId = ''c'', low = 0, high = 1, mode = Some partial \<rparr>"
    by (simp add: initializePartialRankingState_def)
  have h3: "applyComparisons
        \<lparr> sortedListItemIds = [''a'', ''b''], pendingItemIds = [''d'', ''e''],
          currentCandidateId = ''c'', low = 0, high = 1, mode = Some partial \<rparr>
        [False, True]
       = Some \<lparr> sortedListItemIds = [''a'', ''c'', ''b''], pendingItemIds = [''e''],
                currentCandidateId = ''d'', low = 0, high = 2, mode = Some partial \<rparr>"
    by (simp add: processComparison_def splice_insert_def)
  from partial_ranking_preserves_existing_order [OF h1 h2 h3] h1 h2 h3
  show ?thesis by simp
qed

subsection \<open>C7: monotonic narrowing\<close>

text \<open>
  C7 states that every call of \<^verbatim>\<open>processComparison\<close> either strictly shrinks the window
  while the candidate stays the same, or ends the placement of the candidate by inserting it,
  and that the window never widens for the same candidate. In a full ranking the code does
  not do that: pending starts with the candidate itself, so the first insertion dequeues the
  same identifier again. For the items \<open>a, b, c\<close> the initial session has the candidate \<open>b\<close>
  and the window \<open>[0, 0]\<close>; on the answer "candidate preferred" the session returned has the
  candidate \<open>b\<close> again, with the window \<open>[0, 1]\<close>.
\<close>

theorem window_widens_for_same_candidate:
  "initializeRankingState
     [\<lparr> item_id = ''a'', item_text = ''Item A'' \<rparr>,
      \<lparr> item_id = ''b'', item_text = ''Item B'' \<rparr>,
      \<lparr> item_id = ''c'', item_text = ''Item C'' \<rparr>]
     = Some \<lparr> sortedListItemIds = [''a''], pendingItemIds = [''b'', ''c''],
              currentCandidateId = ''b'', low = 0, high = 0, mode = Some full \<rparr>
   \<and> processComparison
       \<lparr> sortedListItemIds = [''a''], pendingItemIds = [''b'', ''c''],
         currentCandidateId = ''b'', low = 0, high = 0, mode = Some full \<rparr> True
     = Some \<lparr> sortedListItemIds = [''b'', ''a''], pendingItemIds = [''c''],
              currentCandidateId = ''b'', low = 0, high = 1, mode = Some full \<rparr>"
  by (simp add: initializeRankingState_def processComparison_def splice_insert_def)

subsection \<open>C8: determinism\<close>

text \<open>
  C8: replaying a full ranking on the same items with the same answers goes through the same
  sessions, step by step, up to the same last session (whose ordered sequence is what is
  recorded at completion). The sessions depend on the identifiers of the items only: two
  item lists with the same identifiers in the same order, whatever their texts, are replayed
  alike; the case of one and the same item list is the instance \<open>its' = its\<close>.
\<close>

theorem replay_is_deterministic:
  assumes "map item_id its = map item_id its'"
  shows "replayFullRanking its answers = replayFullRanking its' answers"
  using initializeRankingState_ids [OF assms]
  by (simp add: replayFullRanking_def)

theorem replay_is_deterministic_witness:
  "map item_id [\<lparr> item_id = ''a'', item_text = ''Item A'' \<rparr>,
                \<lparr> item_id = ''b'', item_text = ''Item B'' \<rparr>,
                \<lparr> item_id = ''c'', item_text = ''Item C'' \<rparr>]
     = map item_id [\<lparr> item_id = ''a'', item_text = ''first'' \<rparr>,
                    \<lparr> item_id = ''b'', item_text = ''second'' \<rparr>,
                    \<lparr> item_id = ''c'', item_text = ''third'' \<rparr>]
   \<and> replayFullRanking [\<lparr> item_id = ''a'', item_text = ''Item A'' \<rparr>,
                        \<lparr> item_id = ''b'', item_text = ''Item B'' \<rparr>,
                        \<lparr> item_id = ''c'', item_text = ''Item C'' \<rparr>] [True, False]
     = replayFullRanking [\<lparr> item_id = ''a'', item_text = ''first'' \<rparr>,
                          \<lparr> item_id = ''b'', item_text = ''second'' \<rparr>,
                          \<lparr> item_id = ''c'', item_text = ''third'' \<rparr>] [True, False]"
proof -
  have h: "map item_id [\<lparr> item_id = ''a'', item_text = ''Item A'' \<rparr>,
                        \<lparr> item_id = ''b'', item_text = ''Item B'' \<rparr>,
                        \<lparr> item_id = ''c'', item_text = ''Item C'' \<rparr>]
     = map item_id [\<lparr> item_id = ''a'', item_text = ''first'' \<rparr>,
                    \<lparr> item_id = ''b'', item_text = ''second'' \<rparr>,
                    \<lparr> item_id = ''c'', item_text = ''third'' \<rparr>]"
    by simp
  show ?thesis
    using h replay_is_deterministic [OF h, of "[True, False]"] by simp
qed

subsection \<open>C9: the bounds stay inside ordered\<close>

text \<open>
  C9: every session that an initializer returns, and every session reached from it by
  answers that leave it active, has \<open>0 \<le> low \<le> high \<le> length ordered - 1\<close>; so
  \<open>mid = floor((low + high) / 2)\<close> is an index of ordered, and \<^verbatim>\<open>getCurrentComparison\<close>
  returns as reference the element of ordered at \<open>mid\<close>, never \<^verbatim>\<open>undefined\<close>.
\<close>

theorem bounds_safety:
  assumes "initializeRankingState its = Some s0
           \<or> initializePartialRankingState existingRankedIds newItems = Some s0"
    and "applyComparisons s0 answers = Some s"
  shows "0 \<le> low s \<and> low s \<le> high s \<and> high s \<le> int (length (sortedListItemIds s)) - 1
       \<and> (let mid = (low s + high s) div 2
          in 0 \<le> mid \<and> mid < int (length (sortedListItemIds s))
           \<and> referenceId (getCurrentComparison s) = Some (sortedListItemIds s ! nat mid)
           \<and> sortedListItemIds s ! nat mid \<in> set (sortedListItemIds s))"
proof -
  from initial_bounds [OF assms(1)]
  have "0 \<le> low s0" "low s0 \<le> high s0" "high s0 \<le> int (length (sortedListItemIds s0)) - 1"
    by simp_all
  from applyComparisons_bounds [OF assms(2) this]
  have b: "0 \<le> low s" "low s \<le> high s" "high s \<le> int (length (sortedListItemIds s)) - 1"
    by simp_all
  define mid where "mid = (low s + high s) div 2"
  from b have m: "0 \<le> mid" "mid < int (length (sortedListItemIds s))"
    unfolding mid_def by auto
  then have "nat mid < length (sortedListItemIds s)" by simp
  then have mem: "sortedListItemIds s ! nat mid \<in> set (sortedListItemIds s)" by simp
  from m have "referenceId (getCurrentComparison s) = Some (sortedListItemIds s ! nat mid)"
    by (simp add: getCurrentComparison_def js_index_def Let_def mid_def)
  with b m mem show ?thesis
    by (simp add: Let_def mid_def)
qed

theorem bounds_safety_witness:
  "initializePartialRankingState [''a'', ''b'', ''c'']
        [\<lparr> item_id = ''x'', item_text = ''X'' \<rparr>,
         \<lparr> item_id = ''y'', item_text = ''Y'' \<rparr>,
         \<lparr> item_id = ''z'', item_text = ''Z'' \<rparr>]
       = Some \<lparr> sortedListItemIds = [''a'', ''b'', ''c''], pendingItemIds = [''y'', ''z''],
                currentCandidateId = ''x'', low = 0, high = 2, mode = Some partial \<rparr>
   \<and> applyComparisons
        \<lparr> sortedListItemIds = [''a'', ''b'', ''c''], pendingItemIds = [''y'', ''z''],
          currentCandidateId = ''x'', low = 0, high = 2, mode = Some partial \<rparr>
        [False, True, False]
       = Some \<lparr> sortedListItemIds = [''a'', ''b'', ''x'', ''c''], pendingItemIds = [''z''],
                currentCandidateId = ''y'', low = 2, high = 3, mode = Some partial \<rparr>
   \<and> referenceId (getCurrentComparison
        \<lparr> sortedListItemIds = [''a'', ''b'', ''x'', ''c''], pendingItemIds = [''z''],
          currentCandidateId = ''y'', low = 2, high = 3, mode = Some partial \<rparr>)
       = Some ''x''"
proof -
  have h1: "initializePartialRankingState [''a'', ''b'', ''c'']
        [\<lparr> item_id = ''x'', item_text = ''X'' \<rparr>,
         \<lparr> item_id = ''y'', item_text = ''Y'' \<rparr>,
         \<lparr> item_id = ''z'', item_text = ''Z'' \<rparr>]
       = Some \<lparr> sortedListItemIds = [''a'', ''b'', ''c''], pendingItemIds = [''y'', ''z''],
                currentCandidateId = ''x'', low = 0, high = 2, mode = Some partial \<rparr>"
    by (simp add: initializePartialRankingState_def)
  have h2: "applyComparisons
        \<lparr> sortedListItemIds = [''a'', ''b'', ''c''], pendingItemIds = [''y'', ''z''],
          currentCandidateId = ''x'', low = 0, high = 2, mode = Some partial \<rparr>
        [False, True, False]
       = Some \<lparr> sortedListItemIds = [''a'', ''b'', ''x'', ''c''], pendingItemIds = [''z''],
                currentCandidateId = ''y'', low = 2, high = 3, mode = Some partial \<rparr>"
    by (simp add: processComparison_def splice_insert_def)
  from bounds_safety [OF disjI2 [OF h1] h2] h1 h2
  show ?thesis by (simp add: Let_def)
qed

subsection \<open>C10: what the reducer records at completion\<close>

text \<open>
  C10: when \<^verbatim>\<open>MAKE_COMPARISON\<close> is dispatched on a state that has a session, and
  \<^verbatim>\<open>processComparison\<close> signals completion, the reducer gives the current list the status
  \<open>ranked\<close> and, as its ranking, the ordered sequence of the session as it was before this
  comparison; it clears the unranked items of that list and the session, and shows the
  ranked result. Nothing else of the state changes.
\<close>

theorem make_comparison_completion:
  assumes "rankingState st = Some rs"
    and "processComparison rs chooseCandidate = None"
  shows "appReducer st (MAKE_COMPARISON chooseCandidate) =
           st \<lparr> appLists :=
                  map (\<lambda>l. if Some (list_id l) = currentListId st
                            then l \<lparr> status := ranked,
                                    rankedData := Some (sortedListItemIds rs),
                                    unrankedItems := None \<rparr>
                            else l) (appLists st),
                rankingState := None,
                currentView := rankedResult \<rparr>"
  using assms by simp

theorem make_comparison_completion_witness:
  "processComparison
     \<lparr> sortedListItemIds = [''a''], pendingItemIds = [], currentCandidateId = ''b'',
       low = 0, high = 0, mode = Some full \<rparr> True = None
   \<and> appReducer
       \<lparr> appLists =
           [\<lparr> list_id = ''list-1'', name = ''Test List'',
              items = [\<lparr> item_id = ''a'', item_text = ''A'' \<rparr>,
                       \<lparr> item_id = ''b'', item_text = ''B'' \<rparr>],
              status = ranking, rankedData = None, unrankedItems = None, createdAt = 0 \<rparr>],
         currentListId = Some ''list-1'',
         rankingState =
           Some \<lparr> sortedListItemIds = [''a''], pendingItemIds = [],
                  currentCandidateId = ''b'', low = 0, high = 0, mode = Some full \<rparr>,
         currentTab = current, currentView = rankingView \<rparr>
       (MAKE_COMPARISON True)
     = \<lparr> appLists =
           [\<lparr> list_id = ''list-1'', name = ''Test List'',
              items = [\<lparr> item_id = ''a'', item_text = ''A'' \<rparr>,
                       \<lparr> item_id = ''b'', item_text = ''B'' \<rparr>],
              status = ranked, rankedData = Some [''a''], unrankedItems = None,
              createdAt = 0 \<rparr>],
         currentListId = Some ''list-1'', rankingState = None,
         currentTab = current, currentView = rankedResult \<rparr>"
proof -
  have h: "processComparison
     \<lparr> sortedListItemIds = [''a''], pendingItemIds = [], currentCandidateId = ''b'',
       low = 0, high = 0, mode = Some full \<rparr> True = None"
    by (simp add: processComparison_def)
  from make_comparison_completion
    [of "\<lparr> appLists =
           [\<lparr> list_id = ''list-1'', name = ''Test List'',
              items = [\<lparr> item_id = ''a'', item_text = ''A'' \<rparr>,
                       \<lparr> item_id = ''b'', item_text = ''B'' \<rparr>],
              status = ranking, rankedData = None, unrankedItems = None, createdAt = 0 \<rparr>],
         currentListId = Some ''list-1'',
         rankingState =
           Some \<lparr> sortedListItemIds = [''a''], pendingItemIds = [],
                  currentCandidateId = ''b'', low = 0, high = 0, mode = Some full \<rparr>,
         currentTab = current, currentView = rankingView \<rparr>", OF _ h] h
  show ?thesis by simp
qed

end
